theory Spec2Isabelle
  imports Main
begin

section \<open>Key ring lifecycle of the KMS resource (resource_ibm_kms_key_rings.go)\<close>

subsection \<open>The string functions of Go's library that the resource calls\<close>

text \<open>
  Go strings are byte sequences, as \<^typ>\<open>string\<close> is. \<open>strings.HasPrefix\<close>, \<open>strings.Index\<close>
  (\<open>None\<close> for Go's \<open>-1\<close>), \<open>strings.Contains\<close> and \<open>strings.Split\<close> follow the library:
  \<open>Split\<close> cuts at the first occurrence of the separator and goes on with the rest, so
  occurrences are found left to right and do not overlap, and the result always has at
  least one element. The library bounds the loop by the number of occurrences; here the
  bound is the length of the string, which is never smaller. The resource only splits
  on \<open>":"\<close> and \<open>":keyRing:"\<close>; on the empty separator the library cuts after every
  character.
\<close>

definition HasPrefix :: "string \<Rightarrow> string \<Rightarrow> bool" where
  "HasPrefix s prefix \<longleftrightarrow> length prefix \<le> length s \<and> take (length prefix) s = prefix"

fun Index :: "string \<Rightarrow> string \<Rightarrow> nat option" where
  "Index [] substr = (if substr = [] then Some 0 else None)"
| "Index (c # cs) substr =
     (if HasPrefix (c # cs) substr then Some 0 else map_option Suc (Index cs substr))"

definition Contains :: "string \<Rightarrow> string \<Rightarrow> bool" where
  "Contains s substr = (case Index s substr of None \<Rightarrow> False | Some i \<Rightarrow> True)"

fun genSplit :: "nat \<Rightarrow> string \<Rightarrow> string \<Rightarrow> string list" where
  "genSplit 0 s sep = [s]"
| "genSplit (Suc n) s sep =
     (case Index s sep of
        None \<Rightarrow> [s]
      | Some m \<Rightarrow> take m s # genSplit n (drop (m + length sep) s) sep)"

definition Split :: "string \<Rightarrow> string \<Rightarrow> string list" where
  "Split s sep = (if sep = [] then map (\<lambda>c. [c]) s else genSplit (length s) s sep)"

subsection \<open>Results: a returned error, or a run-time panic\<close>

text \<open>
  An error value of Go is either a \<open>*kp.Error\<close> of the Key Protect client, which carries
  a status code, or an error of any other dynamic type.
\<close>

datatype error_value = kp_Error int | other_error string

text \<open>The errors the three operations return, one constructor for each return site.\<close>

datatype op_error =
    Verbatim error_value
  | ErrorRetrievingResourceInstance "error_value option"
  | FixCouldNotCreateRequest error_value
  | FixCouldNotRetrieveAccessToken error_value
  | FixCouldNotExecuteRequest string error_value
  | ErrorWhileCreatingKeyRing string string string error_value
  | ErrorWhileFetchingKeyRing error_value
  | IncorrectID string
  | GetKeyRingsFailed error_value
  | FailedToDestroyKeyRing error_value

datatype panic = IndexOutOfRange | NilPointerDereference | TypeAssertionFailed

datatype 'a result = Return 'a | Failed op_error | Panicked panic

subsection \<open>The composite identifier\<close>

text \<open>
  The validator of \<open>key_ring_id\<close> (ResourceIBMKeyRingValidator): the characters of
  \<open>[a-zA-Z0-9-]\<close>, at least 2 and at most 100 of them.
\<close>

definition key_ring_char :: "char \<Rightarrow> bool" where
  "key_ring_char c \<longleftrightarrow>
     (let n = (of_char c :: nat)
      in (97 \<le> n \<and> n \<le> 122) \<or> (65 \<le> n \<and> n \<le> 90) \<or> (48 \<le> n \<and> n \<le> 57) \<or> n = 45)"

definition valid_key_ring_id :: "string \<Rightarrow> bool" where
  "valid_key_ring_id s \<longleftrightarrow> list_all key_ring_char s \<and> 2 \<le> length s \<and> length s \<le> 100"

text \<open>The identifier that Create stores: \<open>fmt.Sprintf("%s:keyRing:%s", keyRing, *instanceCRN)\<close>.\<close>

definition encodeId :: "string \<Rightarrow> string \<Rightarrow> string" where
  "encodeId keyRing instanceCRN = keyRing @ '':keyRing:'' @ instanceCRN"

text \<open>
  What Read does with the stored identifier (lines 155 to 162): it splits on
  \<open>":keyRing:"\<close>, returns an error when there are fewer than two parts, takes the second
  part as the CRN, splits it on \<open>":"\<close> and indexes the result at \<open>len - 3\<close>. Go panics when
  that index is negative. The value is the triple of \<open>id[0]\<close>, \<open>crn\<close> and \<open>instanceID\<close>.
\<close>

definition decodeRead :: "string \<Rightarrow> (string \<times> string \<times> string) result" where
  "decodeRead dId =
     (let id = Split dId '':keyRing:''
      in if length id < 2 then Failed (IncorrectID dId)
         else let crn = id ! 1;
                  crnData = Split crn '':''
              in if length crnData < 3 then Panicked IndexOutOfRange
                 else Return (id ! 0, crn, crnData ! (length crnData - 3)))"

text \<open>
  Delete (lines 208 to 212) does the same without the check on the number of parts, so
  that \<open>id[1]\<close> itself panics when the separator is missing.
\<close>

definition decodeDelete :: "string \<Rightarrow> (string \<times> string \<times> string) result" where
  "decodeDelete dId =
     (let id = Split dId '':keyRing:''
      in if length id < 2 then Panicked IndexOutOfRange
         else let crn = id ! 1;
                  crnData = Split crn '':''
              in if length crnData < 3 then Panicked IndexOutOfRange
                 else Return (id ! 0, crn, crnData ! (length crnData - 3)))"

subsection \<open>The resource data, the clients and the remote services\<close>

text \<open>The fields of \<open>*schema.ResourceData\<close> that the resource reads and writes.\<close>

record ResourceData =
  d_Id :: string
  instance_id :: string
  key_ring_id :: string
  endpoint_type :: string

text \<open>
  The Key Protect client of the session: \<open>kpAPI.URL\<close>, \<open>kpAPI.Config.BaseURL\<close> and
  \<open>kpAPI.Config.InstanceID\<close>. It is one shared object that every operation updates in
  place, so it is part of the state.
\<close>

record kp_Client =
  URL :: string
  BaseURL :: string
  InstanceID :: string

record KeyRing =
  ID :: string

text \<open>
  \<open>*rc.ResourceInstance\<close>: the \<open>CRN\<close> field is a pointer, the extensions are handed to
  \<open>KmsEndpointURL\<close> as they are.
\<close>

record 'x ResourceInstance =
  CRN :: "string option"
  Extensions :: 'x

text \<open>
  The requests that leave the process. The calls of the Key Protect client carry the
  URL and the instance id the client holds when the call is made.
\<close>

datatype call =
    GetResourceInstance_call string
  | Http_POST string string string
  | CreateKeyRing_call string string string
  | GetKeyRings_call string string
  | DeleteKeyRing_call string string string

text \<open>
  Everything outside the file is a parameter. The accessors of the session return a
  client or an error; \<open>KmsEndpointURL\<close> (defined elsewhere in the package) and
  \<open>http.NewRequest\<close> are functions of their arguments. The answer of a remote service
  is a function of all the requests made so far, the current one last, so that a
  service may answer the same request differently after a change. \<open>GetResourceInstance\<close>
  returns an instance pointer and an error, independently; \<open>GetKeyRings\<close> returns either
  an error or the key rings.
\<close>

record 'x world =
  KeyManagementAPI :: "error_value option"
  ResourceControllerV2API :: "error_value option"
  BluemixSession :: "error_value + string"
  KmsEndpointURL :: "kp_Client \<Rightarrow> string \<Rightarrow> 'x \<Rightarrow> error_value + string"
  NewRequest :: "string \<Rightarrow> error_value option"
  GetResourceInstance :: "call list \<Rightarrow> 'x ResourceInstance option \<times> error_value option"
  Do :: "call list \<Rightarrow> error_value option"
  CreateKeyRing :: "call list \<Rightarrow> error_value option"
  GetKeyRings :: "call list \<Rightarrow> error_value + KeyRing list"
  DeleteKeyRing :: "call list \<Rightarrow> error_value option"

record state =
  d :: ResourceData
  kpAPI :: kp_Client
  trace :: "call list"

definition record_call :: "call \<Rightarrow> state \<Rightarrow> state" where
  "record_call c st = st\<lparr>trace := trace st @ [c]\<rparr>"

definition configure :: "string \<Rightarrow> string \<Rightarrow> state \<Rightarrow> state" where
  "configure u instanceID st = st\<lparr>kpAPI := (kpAPI st)\<lparr>URL := u, InstanceID := instanceID\<rparr>\<rparr>"

subsection \<open>Read\<close>

text \<open>
  resourceIBMKmsKeyRingRead, lines 150 to 201. The error of \<open>GetKeyRings\<close> is asserted
  to be a \<open>*kp.Error\<close> with the one-value form of the type assertion, which panics on
  any other dynamic type.
\<close>

definition resourceIBMKmsKeyRingRead :: "'x world \<Rightarrow> state \<Rightarrow> unit result \<times> state" where
  "resourceIBMKmsKeyRingRead w st =
    (case KeyManagementAPI w of
       Some err \<Rightarrow> (Failed (Verbatim err), st)
     | None \<Rightarrow>
    (case decodeRead (d_Id (d st)) of
       Failed e \<Rightarrow> (Failed e, st)
     | Panicked p \<Rightarrow> (Panicked p, st)
     | Return (keyRingID, crn, instanceID) \<Rightarrow>
    (let endpointType = endpoint_type (d st) in
     case ResourceControllerV2API w of
       Some err \<Rightarrow> (Failed (Verbatim err), st)
     | None \<Rightarrow>
    (let st1 = record_call (GetResourceInstance_call instanceID) st in
     case GetResourceInstance w (trace st1) of
       (_, Some err) \<Rightarrow> (Failed (ErrorRetrievingResourceInstance (Some err)), st1)
     | (None, None) \<Rightarrow> (Failed (ErrorRetrievingResourceInstance None), st1)
     | (Some instanceData, None) \<Rightarrow>
    (case KmsEndpointURL w (kpAPI st1) endpointType (Extensions instanceData) of
       Inl err \<Rightarrow> (Failed (Verbatim err), st1)
     | Inr u \<Rightarrow>
    (let st2 = configure u instanceID st1;
         st3 = record_call (GetKeyRings_call (URL (kpAPI st2)) (InstanceID (kpAPI st2))) st2
     in case GetKeyRings w (trace st3) of
          Inl (other_error m) \<Rightarrow> (Panicked TypeAssertionFailed, st3)
        | Inl (kp_Error StatusCode) \<Rightarrow>
            if StatusCode = 404 \<or> StatusCode = 409
            then (Return (), st3\<lparr>d := (d st3)\<lparr>d_Id := []\<rparr>\<rparr>)
            else (Failed (GetKeyRingsFailed (kp_Error StatusCode)), st3)
        | Inr _ \<Rightarrow>
            (Return (),
             st3\<lparr>d := (d st3)
               \<lparr>instance_id := instanceID,
                endpoint_type :=
                  (if Contains (URL (kpAPI st3)) ''private'' \<or> Contains (BaseURL (kpAPI st3)) ''private''
                   then ''private'' else ''public''),
                key_ring_id := keyRingID\<rparr>\<rparr>)))))))"

subsection \<open>Delete\<close>

text \<open>resourceIBMKmsKeyRingDelete, lines 203 to 244.\<close>

definition resourceIBMKmsKeyRingDelete :: "'x world \<Rightarrow> state \<Rightarrow> unit result \<times> state" where
  "resourceIBMKmsKeyRingDelete w st =
    (case KeyManagementAPI w of
       Some err \<Rightarrow> (Failed (Verbatim err), st)
     | None \<Rightarrow>
    (case decodeDelete (d_Id (d st)) of
       Failed e \<Rightarrow> (Failed e, st)
     | Panicked p \<Rightarrow> (Panicked p, st)
     | Return (keyRingID, crn, instanceID) \<Rightarrow>
    (let endpointType = endpoint_type (d st) in
     case ResourceControllerV2API w of
       Some err \<Rightarrow> (Failed (Verbatim err), st)
     | None \<Rightarrow>
    (let st1 = record_call (GetResourceInstance_call instanceID) st in
     case GetResourceInstance w (trace st1) of
       (_, Some err) \<Rightarrow> (Failed (ErrorRetrievingResourceInstance (Some err)), st1)
     | (None, None) \<Rightarrow> (Failed (ErrorRetrievingResourceInstance None), st1)
     | (Some instanceData, None) \<Rightarrow>
    (case KmsEndpointURL w (kpAPI st1) endpointType (Extensions instanceData) of
       Inl err \<Rightarrow> (Failed (Verbatim err), st1)
     | Inr u \<Rightarrow>
    (let st2 = configure u instanceID st1;
         st3 = record_call
                 (DeleteKeyRing_call (URL (kpAPI st2)) (InstanceID (kpAPI st2)) keyRingID) st2
     in case DeleteKeyRing w (trace st3) of
          Some (other_error m) \<Rightarrow> (Panicked TypeAssertionFailed, st3)
        | Some (kp_Error StatusCode) \<Rightarrow>
            if StatusCode = 404 \<or> StatusCode = 409
            then (Return (), st3)
            else (Failed (FailedToDestroyKeyRing (kp_Error StatusCode)), st3)
        | None \<Rightarrow> (Return (), st3)))))))"

subsection \<open>Create\<close>

text \<open>
  The loop of lines 138 to 143: the id of the first key ring that equals \<open>keyRingID\<close>,
  or the empty string the variable \<open>keyRing\<close> starts with.
\<close>

fun findKeyRing :: "string \<Rightarrow> KeyRing list \<Rightarrow> string" where
  "findKeyRing keyRingID [] = []"
| "findKeyRing keyRingID (v # vs) = (if ID v = keyRingID then ID v else findKeyRing keyRingID vs)"

text \<open>
  resourceIBMKmsKeyRingCreate, lines 72 to 148. Line 95 reads \<open>instanceData.CRN\<close> before
  line 96 checks \<open>instanceData\<close> against nil, and line 145 dereferences the CRN pointer.
  The request of lines 107 to 127 goes out before the call of the client. The last line
  hands over to Read.
\<close>

definition resourceIBMKmsKeyRingCreate :: "'x world \<Rightarrow> state \<Rightarrow> unit result \<times> state" where
  "resourceIBMKmsKeyRingCreate w st =
    (case KeyManagementAPI w of
       Some err \<Rightarrow> (Failed (Verbatim err), st)
     | None \<Rightarrow>
    (let CrnInstanceID = Split (instance_id (d st)) '':'';
         instanceID = (if length CrnInstanceID > 3
                       then CrnInstanceID ! (length CrnInstanceID - 3)
                       else instance_id (d st));
         endpointType = endpoint_type (d st);
         keyRingID = key_ring_id (d st)
     in case ResourceControllerV2API w of
       Some err \<Rightarrow> (Failed (Verbatim err), st)
     | None \<Rightarrow>
    (let st1 = record_call (GetResourceInstance_call instanceID) st in
     case GetResourceInstance w (trace st1) of
       (None, _) \<Rightarrow> (Panicked NilPointerDereference, st1)
     | (Some instanceData, Some err) \<Rightarrow>
         (Failed (ErrorRetrievingResourceInstance (Some err)), st1)
     | (Some instanceData, None) \<Rightarrow>
    (let instanceCRN = CRN instanceData in
     case KmsEndpointURL w (kpAPI st1) endpointType (Extensions instanceData) of
       Inl err \<Rightarrow> (Failed (Verbatim err), st1)
     | Inr u \<Rightarrow>
    (let st2 = configure u instanceID st1;
         tmpUrl = u @ ''/api/v2/key_rings/'' @ keyRingID
     in case NewRequest w tmpUrl of
       Some tmpErr \<Rightarrow> (Failed (FixCouldNotCreateRequest tmpErr), st2)
     | None \<Rightarrow>
    (case BluemixSession w of
       Inl tmpErr \<Rightarrow> (Failed (FixCouldNotRetrieveAccessToken tmpErr), st2)
     | Inr IAMAccessToken \<Rightarrow>
    (let st3 = record_call (Http_POST tmpUrl IAMAccessToken instanceID) st2 in
     case Do w (trace st3) of
       Some tmpErr2 \<Rightarrow> (Failed (FixCouldNotExecuteRequest tmpUrl tmpErr2), st3)
     | None \<Rightarrow>
    (let st4 = record_call
                 (CreateKeyRing_call (URL (kpAPI st3)) (InstanceID (kpAPI st3)) keyRingID) st3
     in case CreateKeyRing w (trace st4) of
       Some err \<Rightarrow> (Failed (ErrorWhileCreatingKeyRing u instanceID keyRingID err), st4)
     | None \<Rightarrow>
    (let st5 = record_call (GetKeyRings_call (URL (kpAPI st4)) (InstanceID (kpAPI st4))) st4 in
     case GetKeyRings w (trace st5) of
       Inl err2 \<Rightarrow> (Failed (ErrorWhileFetchingKeyRing err2), st5)
     | Inr keyRings \<Rightarrow>
    (let keyRing = findKeyRing keyRingID keyRings in
     case instanceCRN of
       None \<Rightarrow> (Panicked NilPointerDereference, st5)
     | Some c \<Rightarrow>
         resourceIBMKmsKeyRingRead w
           (st5\<lparr>d := (d st5)\<lparr>d_Id := encodeId keyRing c\<rparr>\<rparr>)))))))))))"

subsection \<open>The requests of one operation\<close>

text \<open>The requests an operation added to the trace of the state it started from.\<close>

definition issued :: "state \<Rightarrow> state \<Rightarrow> call list" where
  "issued st st' = drop (length (trace st)) (trace st')"

text \<open>The first list is an initial part of the second.\<close>

definition initial_part :: "'a list \<Rightarrow> 'a list \<Rightarrow> bool" where
  "initial_part evs full \<longleftrightarrow> take (length evs) full = evs"

text \<open>
  The requests in the order in which the statements of Create make them: the instance
  lookup (line 94), the POST of lines 107 to 127 to the key ring under the URL of the
  endpoint, \<open>CreateKeyRing\<close> (line 129), \<open>GetKeyRings\<close> (line 134), and then those of
  the Read of line 147: a second instance lookup (line 172) and a second \<open>GetKeyRings\<close>
  (line 183), for the instance id and the URL that Read works out.
\<close>

definition create_requests ::
  "string \<Rightarrow> string \<Rightarrow> string \<Rightarrow> string \<Rightarrow> string \<Rightarrow> string \<Rightarrow> call list" where
  "create_requests instanceID u keyRingID IAMAccessToken instanceID' u' =
     [GetResourceInstance_call instanceID,
      Http_POST (u @ ''/api/v2/key_rings/'' @ keyRingID) IAMAccessToken instanceID,
      CreateKeyRing_call u instanceID keyRingID,
      GetKeyRings_call u instanceID,
      GetResourceInstance_call instanceID',
      GetKeyRings_call u' instanceID']"

subsection \<open>Concrete services and states\<close>

text \<open>
  The instance of the scenario and a session in which every call succeeds: the
  instance lookup returns the CRN of the scenario, the list of key rings holds
  \<open>finance-keys\<close>.
\<close>

definition scenario_crn :: string where
  "scenario_crn = ''crn:v1:bluemix:public:kms:us-south:a/abc:123::''"

definition world_ok :: "unit world" where
  "world_ok =
     \<lparr>KeyManagementAPI = None,
      ResourceControllerV2API = None,
      BluemixSession = Inr ''token'',
      KmsEndpointURL = (\<lambda>c e x. Inr ''https://kms.test''),
      NewRequest = (\<lambda>u. None),
      GetResourceInstance = (\<lambda>t. (Some \<lparr>CRN = Some scenario_crn, Extensions = ()\<rparr>, None)),
      Do = (\<lambda>t. None),
      CreateKeyRing = (\<lambda>t. None),
      GetKeyRings = (\<lambda>t. Inr [\<lparr>ID = ''default''\<rparr>, \<lparr>ID = ''finance-keys''\<rparr>]),
      DeleteKeyRing = (\<lambda>t. None)\<rparr>"

text \<open>The same session when the list of key rings does not hold the new key ring.\<close>

definition world_not_listed :: "unit world" where
  "world_not_listed = world_ok\<lparr>GetKeyRings := (\<lambda>t. Inr [\<lparr>ID = ''default''\<rparr>])\<rparr>"

text \<open>The instance lookup fails: no instance, and an error that says so.\<close>

definition world_instance_gone :: "unit world" where
  "world_instance_gone =
     world_ok\<lparr>GetResourceInstance := (\<lambda>t. (None, Some (other_error ''404 Not Found'')))\<rparr>"

text \<open>The transport fails under the calls of the Key Protect client: the error is not a
  \<open>*kp.Error\<close>.\<close>

definition world_transport_error :: "unit world" where
  "world_transport_error =
     world_ok\<lparr>GetKeyRings := (\<lambda>t. Inl (other_error ''connection refused'')),
              DeleteKeyRing := (\<lambda>t. Some (other_error ''connection refused''))\<rparr>"

definition client0 :: kp_Client where
  "client0 = \<lparr>URL = [], BaseURL = ''https://kms.cloud'', InstanceID = []\<rparr>"

text \<open>The state before Create, and a state that holds a stored identifier.\<close>

definition state_new :: state where
  "state_new =
     \<lparr>d = \<lparr>d_Id = [], instance_id = scenario_crn, key_ring_id = ''finance-keys'',
           endpoint_type = []\<rparr>,
      kpAPI = client0, trace = []\<rparr>"

definition state_with_id :: "string \<Rightarrow> state" where
  "state_with_id dId =
     \<lparr>d = \<lparr>d_Id = dId, instance_id = [], key_ring_id = [], endpoint_type = []\<rparr>,
      kpAPI = client0, trace = []\<rparr>"

section \<open>Properties\<close>

subsection \<open>The codec of the identifier\<close>

lemma key_ring_char_not_colon: "key_ring_char c \<Longrightarrow> c \<noteq> CHR '':''"
  by (auto simp: key_ring_char_def)

lemma valid_key_ring_id_no_colon: "valid_key_ring_id s \<Longrightarrow> CHR '':'' \<notin> set s"
  using key_ring_char_not_colon by (auto simp: valid_key_ring_id_def list_all_iff)

lemma Index_after_clean_prefix:
  assumes "sep = a # sep'" and "a \<notin> set kr"
  shows "Index (kr @ sep @ rest) sep = Some (length kr)"
  using assms
proof (induction kr)
  case Nil
  then show ?case by (simp add: HasPrefix_def)
next
  case (Cons c cs)
  then have "\<not> HasPrefix (c # cs @ sep @ rest) sep"
    by (auto simp: HasPrefix_def)
  with Cons show ?case by simp
qed

lemma genSplit_no_sep: "Index s sep = None \<Longrightarrow> genSplit n s sep = [s]"
  by (cases n) auto

lemma Split_encodeId:
  assumes "CHR '':'' \<notin> set kr" and "\<not> Contains crn '':keyRing:''"
  shows "Split (encodeId kr crn) '':keyRing:'' = [kr, crn]"
proof -
  have i: "Index (kr @ '':keyRing:'' @ crn) '':keyRing:'' = Some (length kr)"
    using assms(1) by (rule Index_after_clean_prefix[OF refl])
  have n: "Index crn '':keyRing:'' = None"
    using assms(2) by (simp add: Contains_def split: option.splits)
  obtain k where k: "length (kr @ '':keyRing:'' @ crn) = Suc k"
    by (cases "length (kr @ '':keyRing:'' @ crn)") auto
  show ?thesis
    unfolding Split_def encodeId_def using i n k by (simp add: genSplit_no_sep)
qed

text \<open>
  C1, as the claim states it, fails: \<open>strings.Split\<close> cuts at every \<open>":keyRing:"\<close>, so a
  CRN that itself contains the separator comes back cut short. The key ring id is
  valid and the CRN has five segments, yet the decoded CRN is \<open>x:y:z\<close>.
\<close>

theorem C1_counterexample:
  "valid_key_ring_id ''kr'' \<and>
   3 \<le> length (Split ''x:y:z:keyRing:w'' '':'') \<and>
   decodeRead (encodeId ''kr'' ''x:y:z:keyRing:w'') = Return (''kr'', ''x:y:z'', ''x'')"
  by code_simp

text \<open>
  C1, amended: for every key ring id the validator accepts and every CRN of at least
  three segments that does not contain \<open>":keyRing:"\<close>, decoding the encoded identifier
  as Read does gives back the key ring id and the CRN (and the third segment from the
  end as the instance id).
\<close>

theorem C1_roundtrip:
  assumes "valid_key_ring_id keyRing"
    and "3 \<le> length (Split crn '':'')"
    and "\<not> Contains crn '':keyRing:''"
  shows "decodeRead (encodeId keyRing crn) =
           Return (keyRing, crn, Split crn '':'' ! (length (Split crn '':'') - 3))"
proof -
  have "CHR '':'' \<notin> set keyRing"
    using assms(1) by (rule valid_key_ring_id_no_colon)
  then have "Split (encodeId keyRing crn) '':keyRing:'' = [keyRing, crn]"
    using assms(3) by (rule Split_encodeId)
  then show ?thesis
    using assms(2) by (simp add: decodeRead_def Let_def)
qed

theorem C1_roundtrip_witness:
  "valid_key_ring_id ''finance-keys'' \<and>
   3 \<le> length (Split scenario_crn '':'') \<and>
   \<not> Contains scenario_crn '':keyRing:'' \<and>
   decodeRead (encodeId ''finance-keys'' scenario_crn) =
     Return (''finance-keys'', scenario_crn, ''123'')"
proof -
  have v: "valid_key_ring_id ''finance-keys''" by code_simp
  have l: "3 \<le> length (Split scenario_crn '':'')" by code_simp
  have c: "\<not> Contains scenario_crn '':keyRing:''" by code_simp
  have i: "Split scenario_crn '':'' ! (length (Split scenario_crn '':'') - 3) = ''123''"
    by code_simp
  show ?thesis using v l c C1_roundtrip[OF v l c] i by simp
qed

subsection \<open>Facts about the state and the trace\<close>

lemma record_call_simps [simp]:
  "trace (record_call c st) = trace st @ [c]"
  "d (record_call c st) = d st"
  "kpAPI (record_call c st) = kpAPI st"
  by (simp_all add: record_call_def)

lemma configure_simps [simp]:
  "trace (configure u i st) = trace st"
  "d (configure u i st) = d st"
  "URL (kpAPI (configure u i st)) = u"
  "InstanceID (kpAPI (configure u i st)) = i"
  "BaseURL (kpAPI (configure u i st)) = BaseURL (kpAPI st)"
  by (simp_all add: configure_def)

lemma issuedI: "trace st' = trace st @ evs \<Longrightarrow> issued st st' = evs"
  by (simp add: issued_def)

lemma initial_part_simps [simp]:
  "initial_part [] full"
  "\<not> initial_part (e # evs) []"
  "initial_part (e # evs) (f # full) \<longleftrightarrow> e = f \<and> initial_part evs full"
  by (auto simp add: initial_part_def)

lemma eq_snoc_iff: "(ys = xs @ [x]) = (ys \<noteq> [] \<and> butlast ys = xs \<and> last ys = x)"
  by (cases ys rule: rev_cases) auto

lemma findKeyRing_member: "k \<in> ID ` set rs \<Longrightarrow> findKeyRing k rs = k"
  by (induction rs) auto

lemma scenario_id:
  "encodeId ''finance-keys'' scenario_crn =
     ''finance-keys:keyRing:crn:v1:bluemix:public:kms:us-south:a/abc:123::''"
  by (simp add: encodeId_def scenario_crn_def)

lemma scenario_decode:
  "decodeRead ''finance-keys:keyRing:crn:v1:bluemix:public:kms:us-south:a/abc:123::'' =
     Return (''finance-keys'', scenario_crn, ''123'')"
  by code_simp

subsection \<open>What Read does to the trace and to the resource data\<close>

lemma Read_requests_evs:
  "\<exists>evs. trace (snd (resourceIBMKmsKeyRingRead w st)) = trace st @ evs \<and>
     (\<exists>i u. initial_part evs [GetResourceInstance_call i, GetKeyRings_call u i] \<and>
        (fst (resourceIBMKmsKeyRingRead w st) = Return () \<longrightarrow>
           evs = [GetResourceInstance_call i, GetKeyRings_call u i]))"
  unfolding resourceIBMKmsKeyRingRead_def
  by (simp add: Let_def
      split: option.split result.split prod.split sum.split error_value.split)

lemma Read_issued:
  "trace (snd (resourceIBMKmsKeyRingRead w st)) =
     trace st @ issued st (snd (resourceIBMKmsKeyRingRead w st))"
proof -
  obtain evs where e: "trace (snd (resourceIBMKmsKeyRingRead w st)) = trace st @ evs"
    using Read_requests_evs[of w st] by blast
  have "issued st (snd (resourceIBMKmsKeyRingRead w st)) = evs"
    using e by (rule issuedI)
  with e show ?thesis by simp
qed

text \<open>
  Read makes at most two requests, the instance lookup and then \<open>GetKeyRings\<close>, and has
  made both when it returns nil.
\<close>

lemma Read_requests:
  "\<exists>i u. initial_part (issued st (snd (resourceIBMKmsKeyRingRead w st)))
            [GetResourceInstance_call i, GetKeyRings_call u i] \<and>
     (fst (resourceIBMKmsKeyRingRead w st) = Return () \<longrightarrow>
        issued st (snd (resourceIBMKmsKeyRingRead w st)) =
          [GetResourceInstance_call i, GetKeyRings_call u i])"
proof -
  obtain evs where e: "trace (snd (resourceIBMKmsKeyRingRead w st)) = trace st @ evs"
    and s: "\<exists>i u. initial_part evs [GetResourceInstance_call i, GetKeyRings_call u i] \<and>
        (fst (resourceIBMKmsKeyRingRead w st) = Return () \<longrightarrow>
           evs = [GetResourceInstance_call i, GetKeyRings_call u i])"
    using Read_requests_evs[of w st] by blast
  have "issued st (snd (resourceIBMKmsKeyRingRead w st)) = evs"
    using e by (rule issuedI)
  with s show ?thesis by simp
qed

text \<open>
  When Read returns nil and the list of key rings was returned, the identifier decoded
  and stays, and the instance id and the key ring id of the resource data are the
  decoded ones.
\<close>

lemma Read_Return_listed:
  "fst (resourceIBMKmsKeyRingRead w s) = Return () \<and>
   GetKeyRings w (trace (snd (resourceIBMKmsKeyRingRead w s))) = Inr rs
   \<longrightarrow> (\<exists>k crn i. decodeRead (d_Id (d s)) = Return (k, crn, i) \<and>
          d_Id (d (snd (resourceIBMKmsKeyRingRead w s))) = d_Id (d s) \<and>
          instance_id (d (snd (resourceIBMKmsKeyRingRead w s))) = i \<and>
          key_ring_id (d (snd (resourceIBMKmsKeyRingRead w s))) = k)"
  unfolding resourceIBMKmsKeyRingRead_def
  by (simp add: Let_def
      split: option.split result.split prod.split sum.split error_value.split)

subsection \<open>What Create does before it hands over to Read\<close>

lemma Create_requests_evs:
  "\<exists>evs. trace (snd (resourceIBMKmsKeyRingCreate w st)) = trace st @ evs \<and>
     (\<exists>i u tok i' u'.
        initial_part evs (create_requests i u (key_ring_id (d st)) tok i' u') \<and>
        (fst (resourceIBMKmsKeyRingCreate w st) = Return () \<longrightarrow>
           evs = create_requests i u (key_ring_id (d st)) tok i' u'))"
proof -
  define i where "i = (if 3 < length (Split (instance_id (d st)) '':'')
       then Split (instance_id (d st)) '':'' ! (length (Split (instance_id (d st)) '':'') - 3)
       else instance_id (d st))"
  show ?thesis
    unfolding resourceIBMKmsKeyRingCreate_def Let_def i_def[symmetric] create_requests_def
    apply (simp add: case_prod_beta Read_issued split: option.split sum.split)
    apply (intro allI impI conjI)
    apply (rule Read_requests)
    done
qed

text \<open>
  A Create that returns nil went through to Read: the instance lookup returned an
  instance with a CRN, the list of key rings was returned, and Read ran on the resource
  data with the identifier made of the key ring found and that CRN.
\<close>

lemma Create_Return:
  "fst (resourceIBMKmsKeyRingCreate w st) = Return () \<longrightarrow>
   (\<exists>X t1 inst t2 rs c.
      resourceIBMKmsKeyRingRead w X = resourceIBMKmsKeyRingCreate w st \<and>
      fst (GetResourceInstance w t1) = Some inst \<and> CRN inst = Some c \<and>
      GetKeyRings w t2 = Inr rs \<and>
      d X = (d st)\<lparr>d_Id := encodeId (findKeyRing (key_ring_id (d st)) rs) c\<rparr>)"
proof -
  define i where "i = (if 3 < length (Split (instance_id (d st)) '':'')
       then Split (instance_id (d st)) '':'' ! (length (Split (instance_id (d st)) '':'') - 3)
       else instance_id (d st))"
  show ?thesis
    unfolding resourceIBMKmsKeyRingCreate_def Let_def i_def[symmetric]
    apply (simp add: case_prod_beta split: option.split sum.split)
    apply (intro allI impI conjI)
    apply (intro exI conjI)
        apply (rule refl)
       apply assumption
      apply assumption
     apply assumption
    apply simp
    done
qed

text \<open>
  The part of the classification in Delete that works on a \<open>*kp.Error\<close>: when the last
  request of Delete is the call of \<open>DeleteKeyRing\<close> and its answer is a \<open>*kp.Error\<close>, the
  status codes 404 and 409 give nil and every other status code gives an error.
\<close>

lemma Delete_kp_status:
  "trace (snd (resourceIBMKmsKeyRingDelete w st)) =
     trace st @ evs @ [DeleteKeyRing_call u i k] \<and>
   DeleteKeyRing w (trace (snd (resourceIBMKmsKeyRingDelete w st))) = Some (kp_Error code)
   \<longrightarrow> fst (resourceIBMKmsKeyRingDelete w st) =
         (if code = 404 \<or> code = 409 then Return ()
          else Failed (FailedToDestroyKeyRing (kp_Error code)))"
  unfolding resourceIBMKmsKeyRingDelete_def
  by (simp add: Let_def eq_snoc_iff
      split: option.split result.split prod.split sum.split error_value.split)

text \<open>Read checks the number of parts of the identifier, where Delete does not.\<close>

lemma Read_without_separator:
  "resourceIBMKmsKeyRingRead world_ok (state_with_id ''bad-id-no-separator'') =
     (Failed (IncorrectID ''bad-id-no-separator''), state_with_id ''bad-id-no-separator'')"
  by (simp add: resourceIBMKmsKeyRingRead_def world_ok_def state_with_id_def decodeRead_def
      Split_def HasPrefix_def)

subsection \<open>Delete and the errors of the remote call\<close>

text \<open>
  C2 says that Delete returns nil when \<open>DeleteKeyRing\<close> fails with status 404 or 409 and
  surfaces every other remote error as an error. The first half holds, and so does the
  second for a \<open>*kp.Error\<close> (lemma \<open>Delete_kp_status\<close>). For an error of another dynamic type
  the code does not return an error: with a transport error under \<open>DeleteKeyRing\<close>, on
  the identifier of the scenario, the type assertion of line 235 panics.
\<close>

theorem C2_delete_transport_error_panics:
  "fst (resourceIBMKmsKeyRingDelete world_transport_error
          (state_with_id ''finance-keys:keyRing:crn:v1:bluemix:public:kms:us-south:a/abc:123::'')) =
     Panicked TypeAssertionFailed"
  by code_simp

subsection \<open>Create and the list of key rings\<close>

text \<open>
  C3 says that Create fails when the list that follows a successful create call does not
  hold the key ring. The code searches the list and goes on with the empty string when
  nothing is found: with a list that holds only \<open>default\<close>, Create returns nil, the stored
  identifier starts with the separator, and the key ring id of the resource is empty,
  which the validator of the same file rejects.
\<close>

theorem C3_create_without_listed_key_ring:
  "fst (resourceIBMKmsKeyRingCreate world_not_listed state_new) = Return () \<and>
   d_Id (d (snd (resourceIBMKmsKeyRingCreate world_not_listed state_new))) =
     '':keyRing:crn:v1:bluemix:public:kms:us-south:a/abc:123::'' \<and>
   key_ring_id (d (snd (resourceIBMKmsKeyRingCreate world_not_listed state_new))) = [] \<and>
   valid_key_ring_id
     (key_ring_id (d (snd (resourceIBMKmsKeyRingCreate world_not_listed state_new)))) = False"
  by code_simp

subsection \<open>Read and a failing instance lookup\<close>

text \<open>
  C4, as the claim states it, fails: when the instance lookup reports that the instance
  is gone, Read on the identifier of the scenario returns the error of line 174 and
  leaves the stored identifier as it was.
\<close>

theorem C4_counterexample:
  "fst (resourceIBMKmsKeyRingRead world_instance_gone
          (state_with_id ''finance-keys:keyRing:crn:v1:bluemix:public:kms:us-south:a/abc:123::'')) =
     Failed (ErrorRetrievingResourceInstance (Some (other_error ''404 Not Found''))) \<and>
   d_Id (d (snd (resourceIBMKmsKeyRingRead world_instance_gone
          (state_with_id ''finance-keys:keyRing:crn:v1:bluemix:public:kms:us-south:a/abc:123::'')))) =
     ''finance-keys:keyRing:crn:v1:bluemix:public:kms:us-south:a/abc:123::''"
  by code_simp

text \<open>
  C4, amended: for every well-formed external id (one that Read decodes), when the
  instance lookup for the decoded instance id returns an error or no instance, Read
  returns an error and leaves the resource data, the stored id included, unchanged.
\<close>

theorem C4_read_lookup_failure_is_error:
  "decodeRead (d_Id (d st)) = Return (k, crn, i) \<and>
   GetResourceInstance w (trace st @ [GetResourceInstance_call i]) = (inst, err) \<and>
   (inst = None \<or> err \<noteq> None)
   \<longrightarrow> (\<exists>e. fst (resourceIBMKmsKeyRingRead w st) = Failed e) \<and>
       d (snd (resourceIBMKmsKeyRingRead w st)) = d st"
  unfolding resourceIBMKmsKeyRingRead_def
  by (auto simp add: Let_def
      split: option.split result.split prod.split sum.split error_value.split)

theorem C4_read_lookup_failure_is_error_witness:
  "decodeRead (d_Id (d (state_with_id
       ''finance-keys:keyRing:crn:v1:bluemix:public:kms:us-south:a/abc:123::''))) =
     Return (''finance-keys'', scenario_crn, ''123'') \<and>
   GetResourceInstance world_instance_gone
       (trace (state_with_id
          ''finance-keys:keyRing:crn:v1:bluemix:public:kms:us-south:a/abc:123::'') @
        [GetResourceInstance_call ''123'']) =
     (None, Some (other_error ''404 Not Found'')) \<and>
   (\<exists>e. fst (resourceIBMKmsKeyRingRead world_instance_gone
            (state_with_id
               ''finance-keys:keyRing:crn:v1:bluemix:public:kms:us-south:a/abc:123::'')) =
         Failed e) \<and>
   d (snd (resourceIBMKmsKeyRingRead world_instance_gone
        (state_with_id
           ''finance-keys:keyRing:crn:v1:bluemix:public:kms:us-south:a/abc:123::''))) =
     d (state_with_id ''finance-keys:keyRing:crn:v1:bluemix:public:kms:us-south:a/abc:123::'')"
proof -
  let ?s = "state_with_id ''finance-keys:keyRing:crn:v1:bluemix:public:kms:us-south:a/abc:123::''"
  have a: "decodeRead (d_Id (d ?s)) = Return (''finance-keys'', scenario_crn, ''123'')"
    using scenario_decode by (simp add: state_with_id_def)
  have b: "GetResourceInstance world_instance_gone
             (trace ?s @ [GetResourceInstance_call ''123'']) =
           (None, Some (other_error ''404 Not Found''))"
    by (simp add: world_instance_gone_def)
  show ?thesis
    using a b
      C4_read_lookup_failure_is_error[of ?s "''finance-keys''" scenario_crn "''123''"
        world_instance_gone None "Some (other_error ''404 Not Found'')"]
    by simp
qed

subsection \<open>Identifiers that do not decode\<close>

text \<open>
  C5 says that Read and Delete return an error for an identifier whose CRN has fewer
  than three segments. Neither checks the number of segments before it indexes at
  \<open>len - 3\<close>, as Create does at line 80: on \<open>ab:keyRing:xy\<close> both panic with an index out
  of range, before any request.
\<close>

theorem C5_short_crn_panics:
  "fst (resourceIBMKmsKeyRingRead world_ok (state_with_id ''ab:keyRing:xy'')) =
     Panicked IndexOutOfRange \<and>
   trace (snd (resourceIBMKmsKeyRingRead world_ok (state_with_id ''ab:keyRing:xy''))) = [] \<and>
   fst (resourceIBMKmsKeyRingDelete world_ok (state_with_id ''ab:keyRing:xy'')) =
     Panicked IndexOutOfRange \<and>
   trace (snd (resourceIBMKmsKeyRingDelete world_ok (state_with_id ''ab:keyRing:xy''))) = []"
  by code_simp

text \<open>
  C6 says that Delete returns an error for an identifier without the separator. Delete
  takes \<open>id[1]\<close> without the check that Read makes at line 156: on
  \<open>bad-id-no-separator\<close> it panics with an index out of range, before any request.
\<close>

theorem C6_delete_without_separator_panics:
  "fst (resourceIBMKmsKeyRingDelete world_ok (state_with_id ''bad-id-no-separator'')) =
     Panicked IndexOutOfRange \<and>
   trace (snd (resourceIBMKmsKeyRingDelete world_ok (state_with_id ''bad-id-no-separator''))) = []"
  by code_simp

subsection \<open>The requests of Create\<close>

text \<open>
  C7, as the claim states it, fails: a Create that succeeds lists the key rings twice,
  once itself and once in the Read it ends with, which also looks the instance up a
  second time; and the request of lines 107 to 127 goes out before the create call.
\<close>

theorem C7_counterexample:
  "fst (resourceIBMKmsKeyRingCreate world_ok state_new) = Return () \<and>
   issued state_new (snd (resourceIBMKmsKeyRingCreate world_ok state_new)) =
     [GetResourceInstance_call ''123'',
      Http_POST ''https://kms.test/api/v2/key_rings/finance-keys'' ''token'' ''123'',
      CreateKeyRing_call ''https://kms.test'' ''123'' ''finance-keys'',
      GetKeyRings_call ''https://kms.test'' ''123'',
      GetResourceInstance_call ''123'',
      GetKeyRings_call ''https://kms.test'' ''123'']"
  by code_simp

text \<open>
  C7, amended: the remote requests of an invocation of Create are an initial part of
  this sequence, in this order and with none repeated or added: one instance lookup,
  one POST to \<open>/api/v2/key_rings/\<close> and the key ring id under the URL of the endpoint
  (lines 107 to 127), one create-key-ring call of the client, one list-key-rings call,
  and then, from the Read that Create ends with, a second instance lookup and a second
  list-key-rings call. An invocation that returns nil has made exactly these six
  requests; no request is retried.
\<close>

theorem C7_create_requests:
  "\<exists>i u tok i' u'.
     trace (snd (resourceIBMKmsKeyRingCreate w st)) =
       trace st @ issued st (snd (resourceIBMKmsKeyRingCreate w st)) \<and>
     initial_part (issued st (snd (resourceIBMKmsKeyRingCreate w st)))
       (create_requests i u (key_ring_id (d st)) tok i' u') \<and>
     (fst (resourceIBMKmsKeyRingCreate w st) = Return () \<longrightarrow>
        issued st (snd (resourceIBMKmsKeyRingCreate w st)) =
          create_requests i u (key_ring_id (d st)) tok i' u')"
proof -
  obtain evs where e: "trace (snd (resourceIBMKmsKeyRingCreate w st)) = trace st @ evs"
    and s: "\<exists>i u tok i' u'.
        initial_part evs (create_requests i u (key_ring_id (d st)) tok i' u') \<and>
        (fst (resourceIBMKmsKeyRingCreate w st) = Return () \<longrightarrow>
           evs = create_requests i u (key_ring_id (d st)) tok i' u')"
    using Create_requests_evs[of w st] by blast
  have "issued st (snd (resourceIBMKmsKeyRingCreate w st)) = evs"
    using e by (rule issuedI)
  with e s show ?thesis by simp
qed

theorem C7_create_requests_witness:
  "fst (resourceIBMKmsKeyRingCreate world_ok state_new) = Return () \<and>
   (\<exists>i u tok i' u'.
      issued state_new (snd (resourceIBMKmsKeyRingCreate world_ok state_new)) =
        create_requests i u ''finance-keys'' tok i' u') \<and>
   length (issued state_new (snd (resourceIBMKmsKeyRingCreate world_ok state_new))) = 6"
proof -
  have ok: "fst (resourceIBMKmsKeyRingCreate world_ok state_new) = Return ()"
    by code_simp
  have k: "key_ring_id (d state_new) = ''finance-keys''"
    by (simp add: state_new_def)
  obtain i u tok i' u' where
    "issued state_new (snd (resourceIBMKmsKeyRingCreate world_ok state_new)) =
       create_requests i u ''finance-keys'' tok i' u'"
    using ok k C7_create_requests[of world_ok state_new] by auto
  moreover from this
  have "length (issued state_new (snd (resourceIBMKmsKeyRingCreate world_ok state_new))) = 6"
    by (simp add: create_requests_def)
  ultimately show ?thesis using ok by blast
qed

subsection \<open>The scenario\<close>

text \<open>
  C8, as the claim states it, fails: the CRN of the scenario has ten segments, the third
  from the end is \<open>123\<close>, and \<open>abc\<close> is only a part of the segment \<open>a/abc\<close>. After the
  Create of the scenario, Read reports the instance id \<open>123\<close>.
\<close>

theorem C8_counterexample:
  "fst (resourceIBMKmsKeyRingCreate world_ok state_new) = Return () \<and>
   d_Id (d (snd (resourceIBMKmsKeyRingCreate world_ok state_new))) =
     ''finance-keys:keyRing:crn:v1:bluemix:public:kms:us-south:a/abc:123::'' \<and>
   fst (resourceIBMKmsKeyRingRead world_ok
          (snd (resourceIBMKmsKeyRingCreate world_ok state_new))) = Return () \<and>
   instance_id (d (snd (resourceIBMKmsKeyRingRead world_ok
          (snd (resourceIBMKmsKeyRingCreate world_ok state_new))))) = ''123'' \<and>
   ''123'' \<noteq> ''abc''"
  by code_simp

text \<open>
  C8, amended: Create with the key ring id \<open>finance-keys\<close>, on an instance whose CRN is
  \<open>crn:v1:bluemix:public:kms:us-south:a/abc:123::\<close> and whose list of key rings holds
  \<open>finance-keys\<close>, produces the external id
  \<open>finance-keys:keyRing:crn:v1:bluemix:public:kms:us-south:a/abc:123::\<close> when it succeeds,
  and a Read of that id that succeeds reports the instance id \<open>123\<close>, the third segment
  from the end of the CRN, and the key ring id \<open>finance-keys\<close>.
\<close>

theorem C8_scenario:
  assumes K: "key_ring_id (d st) = ''finance-keys''"
    and crn: "\<forall>t inst. fst (GetResourceInstance w t) = Some inst \<longrightarrow>
                CRN inst = Some scenario_crn"
    and listed: "\<forall>t. \<exists>rs. GetKeyRings w t = Inr rs \<and> ''finance-keys'' \<in> ID ` set rs"
    and ok: "fst (resourceIBMKmsKeyRingCreate w st) = Return ()"
    and st1: "d_Id (d st1) =
                ''finance-keys:keyRing:crn:v1:bluemix:public:kms:us-south:a/abc:123::''"
    and ok1: "fst (resourceIBMKmsKeyRingRead w st1) = Return ()"
  shows "d_Id (d (snd (resourceIBMKmsKeyRingCreate w st))) =
           ''finance-keys:keyRing:crn:v1:bluemix:public:kms:us-south:a/abc:123::'' \<and>
         instance_id (d (snd (resourceIBMKmsKeyRingRead w st1))) = ''123'' \<and>
         key_ring_id (d (snd (resourceIBMKmsKeyRingRead w st1))) = ''finance-keys''"
proof -
  obtain X t1 inst t2 rs c where
    CR: "resourceIBMKmsKeyRingRead w X = resourceIBMKmsKeyRingCreate w st" and
    g: "fst (GetResourceInstance w t1) = Some inst" and c: "CRN inst = Some c" and
    l: "GetKeyRings w t2 = Inr rs" and
    dX: "d X = (d st)\<lparr>d_Id := encodeId (findKeyRing (key_ring_id (d st)) rs) c\<rparr>"
    using Create_Return[of w st] ok by blast
  have "c = scenario_crn"
    using crn g c by fastforce
  moreover have "''finance-keys'' \<in> ID ` set rs"
    using listed l by (metis sum.inject(2))
  then have "findKeyRing ''finance-keys'' rs = ''finance-keys''"
    by (rule findKeyRing_member)
  ultimately have idX:
    "d_Id (d X) = ''finance-keys:keyRing:crn:v1:bluemix:public:kms:us-south:a/abc:123::''"
    using dX K scenario_id by simp
  obtain rs' where "GetKeyRings w (trace (snd (resourceIBMKmsKeyRingRead w X))) = Inr rs'"
    using listed by blast
  then have "d_Id (d (snd (resourceIBMKmsKeyRingRead w X))) = d_Id (d X)"
    using Read_Return_listed[of w X rs'] ok CR by auto
  then have A: "d_Id (d (snd (resourceIBMKmsKeyRingCreate w st))) =
           ''finance-keys:keyRing:crn:v1:bluemix:public:kms:us-south:a/abc:123::''"
    using CR idX by simp
  obtain rs1 where "GetKeyRings w (trace (snd (resourceIBMKmsKeyRingRead w st1))) = Inr rs1"
    using listed by blast
  then obtain k crn' i where "decodeRead (d_Id (d st1)) = Return (k, crn', i)"
    "instance_id (d (snd (resourceIBMKmsKeyRingRead w st1))) = i"
    "key_ring_id (d (snd (resourceIBMKmsKeyRingRead w st1))) = k"
    using Read_Return_listed[of w st1 rs1] ok1 by auto
  then have "instance_id (d (snd (resourceIBMKmsKeyRingRead w st1))) = ''123'' \<and>
         key_ring_id (d (snd (resourceIBMKmsKeyRingRead w st1))) = ''finance-keys''"
    using st1 scenario_decode by simp
  with A show ?thesis by simp
qed

theorem C8_scenario_witness:
  "d_Id (d (snd (resourceIBMKmsKeyRingCreate world_ok state_new))) =
     ''finance-keys:keyRing:crn:v1:bluemix:public:kms:us-south:a/abc:123::'' \<and>
   instance_id (d (snd (resourceIBMKmsKeyRingRead world_ok
      (state_with_id ''finance-keys:keyRing:crn:v1:bluemix:public:kms:us-south:a/abc:123::'')))) =
     ''123'' \<and>
   key_ring_id (d (snd (resourceIBMKmsKeyRingRead world_ok
      (state_with_id ''finance-keys:keyRing:crn:v1:bluemix:public:kms:us-south:a/abc:123::'')))) =
     ''finance-keys''"
proof -
  let ?s = "state_with_id ''finance-keys:keyRing:crn:v1:bluemix:public:kms:us-south:a/abc:123::''"
  have K: "key_ring_id (d state_new) = ''finance-keys''"
    by (simp add: state_new_def)
  have crn: "\<forall>t inst. fst (GetResourceInstance world_ok t) = Some inst \<longrightarrow>
               CRN inst = Some scenario_crn"
    by (auto simp add: world_ok_def)
  have listed: "\<forall>t. \<exists>rs. GetKeyRings world_ok t = Inr rs \<and> ''finance-keys'' \<in> ID ` set rs"
    by (simp add: world_ok_def)
  have ok: "fst (resourceIBMKmsKeyRingCreate world_ok state_new) = Return ()"
    by code_simp
  have st1: "d_Id (d ?s) =
               ''finance-keys:keyRing:crn:v1:bluemix:public:kms:us-south:a/abc:123::''"
    by (simp add: state_with_id_def)
  have ok1: "fst (resourceIBMKmsKeyRingRead world_ok ?s) = Return ()"
    by code_simp
  show ?thesis
    by (rule C8_scenario[OF K crn listed ok st1 ok1])
qed

subsection \<open>A failing instance lookup in Create\<close>

text \<open>
  C9 says that every operation returns an error when the instance lookup fails, also
  when the lookup returns no instance. Read and Delete check the error and the pointer
  first. Create reads \<open>instanceData.CRN\<close> at line 95, before the check of line 96: when
  the lookup returns no instance together with its error, Create panics on the nil
  pointer.
\<close>

theorem C9_create_lookup_failure_panics:
  "GetResourceInstance world_instance_gone [GetResourceInstance_call ''123''] =
     (None, Some (other_error ''404 Not Found'')) \<and>
   fst (resourceIBMKmsKeyRingCreate world_instance_gone state_new) =
     Panicked NilPointerDereference"
  by code_simp

subsection \<open>The type assertion on the errors of the client\<close>

text \<open>
  C10: in Read and in Delete, when the call of the Key Protect client (\<open>GetKeyRings\<close>,
  \<open>DeleteKeyRing\<close>) is the last request the operation made and its answer is an error
  whose dynamic type is not \<open>*kp.Error\<close>, the operation panics on the type assertion
  instead of returning an error.
\<close>

theorem C10_non_kp_error_panics:
  "(trace (snd (resourceIBMKmsKeyRingRead w st)) = trace st @ evs @ [GetKeyRings_call u i] \<and>
    GetKeyRings w (trace (snd (resourceIBMKmsKeyRingRead w st))) = Inl (other_error m)
    \<longrightarrow> fst (resourceIBMKmsKeyRingRead w st) = Panicked TypeAssertionFailed) \<and>
   (trace (snd (resourceIBMKmsKeyRingDelete w st)) =
      trace st @ evs @ [DeleteKeyRing_call u i k] \<and>
    DeleteKeyRing w (trace (snd (resourceIBMKmsKeyRingDelete w st))) = Some (other_error m)
    \<longrightarrow> fst (resourceIBMKmsKeyRingDelete w st) = Panicked TypeAssertionFailed)"
  unfolding resourceIBMKmsKeyRingRead_def resourceIBMKmsKeyRingDelete_def
  by (simp add: Let_def eq_snoc_iff
      split: option.split result.split prod.split sum.split error_value.split)

theorem C10_non_kp_error_panics_witness:
  "trace (snd (resourceIBMKmsKeyRingRead world_transport_error
      (state_with_id ''finance-keys:keyRing:crn:v1:bluemix:public:kms:us-south:a/abc:123::''))) =
     [GetResourceInstance_call ''123'', GetKeyRings_call ''https://kms.test'' ''123''] \<and>
   fst (resourceIBMKmsKeyRingRead world_transport_error
      (state_with_id ''finance-keys:keyRing:crn:v1:bluemix:public:kms:us-south:a/abc:123::'')) =
     Panicked TypeAssertionFailed \<and>
   trace (snd (resourceIBMKmsKeyRingDelete world_transport_error
      (state_with_id ''finance-keys:keyRing:crn:v1:bluemix:public:kms:us-south:a/abc:123::''))) =
     [GetResourceInstance_call ''123'',
      DeleteKeyRing_call ''https://kms.test'' ''123'' ''finance-keys''] \<and>
   fst (resourceIBMKmsKeyRingDelete world_transport_error
      (state_with_id ''finance-keys:keyRing:crn:v1:bluemix:public:kms:us-south:a/abc:123::'')) =
     Panicked TypeAssertionFailed"
proof -
  let ?s = "state_with_id ''finance-keys:keyRing:crn:v1:bluemix:public:kms:us-south:a/abc:123::''"
  have s0: "trace ?s = []"
    by (simp add: state_with_id_def)
  have r: "trace (snd (resourceIBMKmsKeyRingRead world_transport_error ?s)) =
             [GetResourceInstance_call ''123'', GetKeyRings_call ''https://kms.test'' ''123'']"
    by code_simp
  have dl: "trace (snd (resourceIBMKmsKeyRingDelete world_transport_error ?s)) =
             [GetResourceInstance_call ''123'',
              DeleteKeyRing_call ''https://kms.test'' ''123'' ''finance-keys'']"
    by code_simp
  have g: "GetKeyRings world_transport_error t = Inl (other_error ''connection refused'')"
    and e: "DeleteKeyRing world_transport_error t = Some (other_error ''connection refused'')"
    for t
    by (simp_all add: world_transport_error_def)
  show ?thesis
    using r dl s0 g e
      C10_non_kp_error_panics[of world_transport_error ?s "[GetResourceInstance_call ''123'']"
        "''https://kms.test''" "''123''" "''connection refused''" "''finance-keys''"]
    by simp
qed

end
